theory Spec2Isabelle
  imports Complex_Main "HOL-Library.Word"
begin

section \<open>The link store of the URL shortener (app.js)\<close>

text \<open>
  The server keeps one table, code to destination, in the file data/links.json. Every
  request reads the file again (loadLinks), and a successful POST /shorten writes the
  whole table back (saveLinks). The model follows app.js function by function: the file
  system is an explicit state, a rejected promise or a thrown exception is the left
  summand of a sum type, and the response written to \<open>res\<close> is a value.

  A text is modelled by what JSON.parse makes of it: the text of a file is a zero-length
  text, a text that JSON.parse rejects, or a text that JSON.parse reads as some JSON
  value, and JSON.stringify of a value is the text that reads back as that value,
  whatever its indentation. Strings are UTF-8 texts, one \<open>char\<close> per byte. Limits of
  memory and of string length are not modelled.
\<close>

subsection \<open>JavaScript values\<close>

text \<open>
  The values JSON.parse returns. A number is the rational a double stands for, or an
  infinity (the text \<open>1e400\<close> reads as Infinity); the two zeros are one number.
\<close>

datatype number = Finite rat | Plus_infinity | Minus_infinity

datatype json =
    JNull
  | JBool bool
  | JNum number
  | JStr string
  | JArr "json list"
  | JObj "string \<Rightarrow> json option"

text \<open>
  What a property read \<open>links[key]\<close> can evaluate to: a JSON value held by the
  receiver, a member inherited from a prototype (a function, or for \<open>__proto__\<close> the
  prototype object itself), or undefined.
\<close>

datatype jsval = Undefined | Json json | Inherited string

abbreviation Str :: "string \<Rightarrow> jsval" where
  "Str s \<equiv> Json (JStr s)"

text \<open>Truthiness, as \<open>if (x)\<close>, \<open>!x\<close> and \<open>x || y\<close> test it.\<close>

fun truthy_json :: "json \<Rightarrow> bool" where
  "truthy_json JNull = False"
| "truthy_json (JBool b) = b"
| "truthy_json (JNum n) = (n \<noteq> Finite 0)"
| "truthy_json (JStr s) = (s \<noteq> [])"
| "truthy_json (JArr xs) = True"
| "truthy_json (JObj m) = True"

fun truthy :: "jsval \<Rightarrow> bool" where
  "truthy Undefined = False"
| "truthy (Json v) = truthy_json v"
| "truthy (Inherited n) = True"

text \<open>
  JSON.stringify followed by JSON.parse: the value a written text reads back as. An
  infinity is written as \<open>null\<close>; every other value is written as itself.
\<close>

primrec stringified :: "json \<Rightarrow> json" where
  "stringified JNull = JNull"
| "stringified (JBool b) = JBool b"
| "stringified (JNum n) = (case n of Finite q \<Rightarrow> JNum (Finite q) | _ \<Rightarrow> JNull)"
| "stringified (JStr s) = JStr s"
| "stringified (JArr xs) = JArr (map stringified xs)"
| "stringified (JObj m) = JObj (map_option stringified \<circ> m)"

datatype errno = ENOENT | EISDIR | EROFS

datatype js_error = SyntaxError | TypeError | RangeError | SystemError errno

subsection \<open>Property access\<close>

text \<open>The own property names of Object.prototype, Boolean.prototype and Number.prototype.\<close>

definition object_prototype_names :: "string list" where
  "object_prototype_names =
     [''constructor'', ''__defineGetter__'', ''__defineSetter__'', ''hasOwnProperty'',
      ''__lookupGetter__'', ''__lookupSetter__'', ''isPrototypeOf'',
      ''propertyIsEnumerable'', ''toString'', ''valueOf'', ''__proto__'',
      ''toLocaleString'']"

definition boolean_prototype_names :: "string list" where
  "boolean_prototype_names = [''constructor'', ''toString'', ''valueOf'']"

definition number_prototype_names :: "string list" where
  "number_prototype_names =
     [''constructor'', ''toExponential'', ''toFixed'', ''toPrecision'', ''toString'',
      ''valueOf'', ''toLocaleString'']"

definition inherited :: "string list \<Rightarrow> string \<Rightarrow> jsval" where
  "inherited names key = (if key \<in> set names then Inherited key else Undefined)"

text \<open>
  The table app.js is written for is a plain object. What a string or an array does as
  the receiver of \<open>links[key]\<close>, what JSON.stringify writes for an array after
  \<open>links[key] = url\<close> (or the error the assignment throws), and whether an array or
  an object passes through the log line and as a header value depend on the version of
  the engine and of Node; the model takes them as a parameter and fixes none of them.
\<close>

record engine =
  string_member :: "string \<Rightarrow> string \<Rightarrow> jsval"
  array_member :: "json list \<Rightarrow> string \<Rightarrow> jsval"
  array_assigned :: "json list \<Rightarrow> string \<Rightarrow> string \<Rightarrow> js_error + json"
  structure_accepted :: "json \<Rightarrow> bool"

text \<open>The read \<open>m[key]\<close> on a plain object: own properties first, then Object.prototype.\<close>

definition object_member :: "(string \<Rightarrow> json option) \<Rightarrow> string \<Rightarrow> jsval" where
  "object_member m key =
     (case m key of
        Some v \<Rightarrow> Json v
      | None \<Rightarrow> inherited object_prototype_names key)"

text \<open>
  The read \<open>links[key]\<close> on whatever loadLinks returned. On \<open>null\<close> it throws a
  TypeError; a boolean or a number has no own properties and inherits from its own
  prototype and from Object.prototype.
\<close>

definition get_property :: "engine \<Rightarrow> json \<Rightarrow> string \<Rightarrow> js_error + jsval" where
  "get_property e links key =
     (case links of
        JNull \<Rightarrow> Inl TypeError
      | JBool b \<Rightarrow> Inr (inherited (boolean_prototype_names @ object_prototype_names) key)
      | JNum n \<Rightarrow> Inr (inherited (number_prototype_names @ object_prototype_names) key)
      | JStr s \<Rightarrow> Inr (string_member e s key)
      | JArr xs \<Rightarrow> Inr (array_member e xs key)
      | JObj m \<Rightarrow> Inr (object_member m key))"

text \<open>
  The assignment \<open>links[key] = url\<close> of a string, in the strict mode of a module; the
  result is the value of \<open>links\<close> afterwards. On a plain object it creates or overwrites
  an own property, except for \<open>__proto__\<close> on an object without such an own property:
  there the inherited setter runs, which ignores a value that is not an object. On
  \<open>null\<close> it throws; on a boolean, a number or a string it throws as well, except that
  the \<open>__proto__\<close> setter returns without effect.
\<close>

definition set_property :: "engine \<Rightarrow> json \<Rightarrow> string \<Rightarrow> string \<Rightarrow> js_error + json" where
  "set_property e links key url =
     (case links of
        JNull \<Rightarrow> Inl TypeError
      | JArr xs \<Rightarrow> array_assigned e xs key url
      | JObj m \<Rightarrow>
          Inr (JObj (if key = ''__proto__'' \<and> m key = None then m else m(key \<mapsto> JStr url)))
      | _ \<Rightarrow> if key = ''__proto__'' then Inr links else Inl TypeError)"

subsection \<open>The data file\<close>

datatype content = Zero_length | Unparseable | Json_text json

datatype file_state = Absent | Directory | Present content

record fs =
  data_file :: file_state
  read_only :: bool
  public_dir :: "string \<rightharpoonup> string"

text \<open>
  readFile(DATA_FILE, "utf-8") and writeFile(DATA_FILE, text). A missing file is ENOENT
  on reading and is created on writing; a directory at the path fails both ways; a
  read-only file system refuses every write.
\<close>

definition readFile :: "fs \<Rightarrow> js_error + content" where
  "readFile s =
     (case data_file s of
        Absent \<Rightarrow> Inl (SystemError ENOENT)
      | Directory \<Rightarrow> Inl (SystemError EISDIR)
      | Present c \<Rightarrow> Inr c)"

definition writeFile :: "content \<Rightarrow> fs \<Rightarrow> (js_error + unit) \<times> fs" where
  "writeFile c s =
     (if read_only s then (Inl (SystemError EROFS), s)
      else if data_file s = Directory then (Inl (SystemError EISDIR), s)
      else (Inr (), s\<lparr>data_file := Present c\<rparr>))"

definition JSON_parse :: "content \<Rightarrow> js_error + json" where
  "JSON_parse c =
     (case c of
        Zero_length \<Rightarrow> Inl SyntaxError
      | Unparseable \<Rightarrow> Inl SyntaxError
      | Json_text v \<Rightarrow> Inr v)"

definition JSON_stringify :: "json \<Rightarrow> content" where
  "JSON_stringify v = Json_text (stringified v)"

text \<open>
  loadLinks. The \<open>try\<close> block reads the file, answers \<open>{}\<close> for a zero-length text
  and parses any other; whatever JSON.parse returns is returned, an object or not. The
  \<open>catch\<close> block sees both the errors of readFile and the SyntaxError of JSON.parse;
  only an error whose code is ENOENT makes it write \<open>{}\<close> to the file, and that write
  can fail in turn.
\<close>

definition loadLinks :: "fs \<Rightarrow> (js_error + json) \<times> fs" where
  "loadLinks s =
     (case (case readFile s of
              Inl error \<Rightarrow> Inl error
            | Inr data \<Rightarrow> if data = Zero_length then Inr (JObj Map.empty) else JSON_parse data) of
        Inr links \<Rightarrow> (Inr links, s)
      | Inl error \<Rightarrow>
          if error = SystemError ENOENT
          then (case writeFile (JSON_stringify (JObj Map.empty)) s of
                  (Inl error', s') \<Rightarrow> (Inl error', s')
                | (Inr _, s') \<Rightarrow> (Inr (JObj Map.empty), s'))
          else (Inl error, s))"

definition saveLinks :: "json \<Rightarrow> fs \<Rightarrow> (js_error + unit) \<times> fs" where
  "saveLinks links s = writeFile (JSON_stringify links) s"

subsection \<open>Responses\<close>

datatype header = Content_Type string | Location jsval

datatype body =
    Json_failure string
  | Json_created string
  | Json_links json
  | Text string
  | No_body

datatype response = Response nat header body

fun status :: "response \<Rightarrow> nat" where
  "status (Response n h b) = n"

abbreviation json :: header where
  "json \<equiv> Content_Type ''application/json''"

definition url_required :: response where
  "url_required = Response 400 json (Json_failure ''URL is required.'')"

definition code_exists :: response where
  "code_exists =
     Response 400 json (Json_failure ''Short code already exists. Please choose another.'')"

definition server_error :: response where
  "server_error = Response 500 json (Json_failure ''Server error.'')"

definition not_found :: response where
  "not_found = Response 404 (Content_Type ''text/plain'') (Text ''404 Not Found'')"

text \<open>
  res.writeHead throws on a header value with a character other than TAB, U+0020 to
  U+007E and U+0080 to U+00FF. In UTF-8 the last range is the lead byte C2 or C3 and one
  continuation byte; every other byte above 7F belongs to a character beyond U+00FF or
  to no character.
\<close>

definition plain_byte :: "char \<Rightarrow> bool" where
  "plain_byte c = (of_char c = (9::nat) \<or> ((32::nat) \<le> of_char c \<and> of_char c \<le> (126::nat)))"

definition latin_lead :: "char \<Rightarrow> bool" where
  "latin_lead c = (of_char c = (194::nat) \<or> of_char c = (195::nat))"

definition continuation :: "char \<Rightarrow> bool" where
  "continuation c = ((128::nat) \<le> of_char c \<and> of_char c \<le> (191::nat))"

fun header_text_ok :: "string \<Rightarrow> bool" where
  "header_text_ok [] = True"
| "header_text_ok [c] = plain_byte c"
| "header_text_ok (c # d # cs) =
     (if plain_byte c then header_text_ok (d # cs)
      else if latin_lead c \<and> continuation d then header_text_ok cs
      else False)"

text \<open>
  Whether the log line and \<open>writeHead(301, {Location: targetUrl})\<close> go through for a
  target. An inherited member is a function or a prototype object, whose text is plain;
  a number or a boolean is written in plain characters.
\<close>

definition location_accepted :: "engine \<Rightarrow> jsval \<Rightarrow> bool" where
  "location_accepted e target =
     (case target of
        Undefined \<Rightarrow> False
      | Inherited n \<Rightarrow> True
      | Json v \<Rightarrow>
          (case v of
             JStr s \<Rightarrow> header_text_ok s
           | JArr xs \<Rightarrow> structure_accepted e v
           | JObj m \<Rightarrow> structure_accepted e v
           | _ \<Rightarrow> True))"

subsection \<open>Generated codes\<close>

text \<open>
  crypto.randomBytes(4) is a parameter of the model: the four bytes of the buffer.
  toString("hex") writes each byte as two lower-case hexadecimal digits.
\<close>

type_synonym buffer4 = "8 word \<times> 8 word \<times> 8 word \<times> 8 word"

definition hex_digit :: "nat \<Rightarrow> char" where
  "hex_digit n = ''0123456789abcdef'' ! n"

definition hex_byte :: "8 word \<Rightarrow> string" where
  "hex_byte b = [hex_digit (unat b div 16), hex_digit (unat b mod 16)]"

fun toString_hex :: "buffer4 \<Rightarrow> string" where
  "toString_hex (b0, b1, b2, b3) = hex_byte b0 @ hex_byte b1 @ hex_byte b2 @ hex_byte b3"

text \<open>
  Reading a hexadecimal text back as a number, and the number the four bytes of a
  buffer spell, first byte first.
\<close>

definition digit_value :: "char \<Rightarrow> nat" where
  "digit_value c = length (takeWhile (\<lambda>d. d \<noteq> c) ''0123456789abcdef'')"

definition from_hex :: "string \<Rightarrow> nat" where
  "from_hex cs = foldl (\<lambda>n c. 16 * n + digit_value c) 0 cs"

fun bytes_value :: "buffer4 \<Rightarrow> nat" where
  "bytes_value (b0, b1, b2, b3) = ((unat b0 * 256 + unat b1) * 256 + unat b2) * 256 + unat b3"

subsection \<open>POST /shorten\<close>

text \<open>
  The text of the request body: one that JSON.parse rejects, or an object with the
  fields \<open>url\<close> and \<open>shortCode\<close>, each a string or absent (undefined or null,
  which \<open>!url\<close> and \<open>||\<close> treat alike), as the form of index.js sends them. Fields
  of another JSON type are outside the model.
\<close>

datatype body_text = Body_unparseable | Body_object "string option" "string option"

text \<open>\<open>shortCode || crypto.randomBytes(4).toString("hex")\<close>\<close>

definition finalShortCode :: "string option \<Rightarrow> buffer4 \<Rightarrow> string" where
  "finalShortCode shortCode rnd =
     (case shortCode of
        None \<Rightarrow> toString_hex rnd
      | Some c \<Rightarrow> if truthy (Str c) then c else toString_hex rnd)"

text \<open>
  The handler of the \<open>end\<close> event from the point where \<open>await loadLinks()\<close> has
  settled, with the table or the error it settled with. Everything is inside one
  \<open>try\<close>, whose \<open>catch\<close> answers 500.
\<close>

definition after_load ::
    "engine \<Rightarrow> js_error + json \<Rightarrow> body_text \<Rightarrow> buffer4 \<Rightarrow> fs \<Rightarrow> response \<times> fs" where
  "after_load e loaded request_body rnd s =
     (case loaded of
        Inl error \<Rightarrow> (server_error, s)
      | Inr links \<Rightarrow>
          (case request_body of
             Body_unparseable \<Rightarrow> (server_error, s)
           | Body_object None shortCode \<Rightarrow> (url_required, s)
           | Body_object (Some url) shortCode \<Rightarrow>
               if \<not> truthy (Str url) then (url_required, s)
               else
                 let code = finalShortCode shortCode rnd in
                 (case get_property e links code of
                    Inl error \<Rightarrow> (server_error, s)
                  | Inr existing \<Rightarrow>
                      if truthy existing then (code_exists, s)
                      else
                        (case set_property e links code url of
                           Inl error \<Rightarrow> (server_error, s)
                         | Inr links' \<Rightarrow>
                             (case saveLinks links' s of
                                (Inl error, s2) \<Rightarrow> (server_error, s2)
                              | (Inr _, s2) \<Rightarrow>
                                  (Response 201 json (Json_created code), s2))))))"

text \<open>
  The whole handler, run without interruption: the table is loaded before the body is
  parsed and before the url is looked at.
\<close>

definition shorten :: "engine \<Rightarrow> body_text \<Rightarrow> buffer4 \<Rightarrow> fs \<Rightarrow> response \<times> fs" where
  "shorten e request_body rnd s =
     (case loadLinks s of (loaded, s1) \<Rightarrow> after_load e loaded request_body rnd s1)"

subsection \<open>GET\<close>

text \<open>serveFile, for the three static files of the public directory.\<close>

definition serveFile :: "string \<Rightarrow> string \<Rightarrow> fs \<Rightarrow> response" where
  "serveFile name contentType s =
     (case public_dir s name of
        Some data \<Rightarrow> Response 200 (Content_Type contentType) (Text data)
      | None \<Rightarrow> Response 500 (Content_Type ''text/plain'') (Text ''500 Internal Server Error''))"

text \<open>
  The default branch of the switch: the redirection. Its \<open>catch\<close> logs the error,
  be it from loadLinks, from the property read or from writeHead, and falls out of the
  switch, as a falsy target does; \<open>None\<close> is that fall-through. The url of a request
  begins with an ASCII character, so \<open>slice(1)\<close> drops one byte.
\<close>

definition redirection :: "engine \<Rightarrow> string \<Rightarrow> fs \<Rightarrow> response option \<times> fs" where
  "redirection e req_url s =
     (case loadLinks s of
        (Inl error, s1) \<Rightarrow> (None, s1)
      | (Inr links, s1) \<Rightarrow>
          (case get_property e links (drop 1 req_url) of
             Inl error \<Rightarrow> (None, s1)
           | Inr targetUrl \<Rightarrow>
               if truthy targetUrl \<and> location_accepted e targetUrl
               then (Some (Response 301 (Location targetUrl) No_body), s1)
               else (None, s1)))"

subsection \<open>The request listener\<close>

record request =
  req_method :: string
  req_url :: string
  req_body :: body_text

text \<open>
  The listener passed to createServer. Its result is the response written, or the error
  its promise is rejected with when nothing was written: the branch for /links awaits
  loadLinks outside any \<open>try\<close>.
\<close>

definition server ::
    "engine \<Rightarrow> request \<Rightarrow> buffer4 \<Rightarrow> fs \<Rightarrow> (js_error + response) \<times> fs" where
  "server e req rnd s =
     (if req_method req = ''POST'' \<and> req_url req = ''/shorten''
      then (case shorten e (req_body req) rnd s of (r, s') \<Rightarrow> (Inr r, s'))
      else if req_method req = ''GET'' \<and> req_url req = ''/''
      then (Inr (serveFile ''index.html'' ''text/html'' s), s)
      else if req_method req = ''GET'' \<and> req_url req = ''/style.css''
      then (Inr (serveFile ''style.css'' ''text/css'' s), s)
      else if req_method req = ''GET'' \<and> req_url req = ''/index.js''
      then (Inr (serveFile ''index.js'' ''text/javascript'' s), s)
      else if req_method req = ''GET'' \<and> req_url req = ''/links''
      then (case loadLinks s of
              (Inl error, s1) \<Rightarrow> (Inl error, s1)
            | (Inr links, s1) \<Rightarrow>
                (Inr (Response 200 json (Json_links (stringified links))), s1))
      else if req_method req = ''GET''
      then (case redirection e (req_url req) s of
              (Some r, s1) \<Rightarrow> (Inr r, s1)
            | (None, s1) \<Rightarrow> (Inr not_found, s1))
      else (Inr not_found, s))"

text \<open>The two kinds of request the properties below speak about.\<close>

abbreviation POST_shorten :: "body_text \<Rightarrow> request" where
  "POST_shorten b \<equiv> \<lparr>req_method = ''POST'', req_url = ''/shorten'', req_body = b\<rparr>"

abbreviation GET_path :: "string \<Rightarrow> request" where
  "GET_path u \<equiv> \<lparr>req_method = ''GET'', req_url = u, req_body = Body_unparseable\<rparr>"

subsection \<open>Several create calls\<close>

text \<open>
  A create call is a request body and the random bytes it would draw. Calls run one
  after the other when each handler finishes before the next begins.
\<close>

type_synonym create_call = "body_text \<times> buffer4"

fun serial :: "engine \<Rightarrow> create_call list \<Rightarrow> fs \<Rightarrow> response list \<times> fs" where
  "serial e [] s = ([], s)"
| "serial e ((b, rnd) # calls) s =
     (case shorten e b rnd s of
        (answer, s1) \<Rightarrow>
          (case serial e calls s1 of (answers, s2) \<Rightarrow> (answer # answers, s2)))"

text \<open>
  The handler has no lock: while one call waits at \<open>await loadLinks()\<close> or at
  \<open>await saveLinks(links)\<close> the event loop runs the others. One such schedule lets
  every call load first, in order of arrival, and then lets every call run from there
  to its answer, in the same order.
\<close>

fun load_each :: "create_call list \<Rightarrow> fs \<Rightarrow> (js_error + json) list \<times> fs" where
  "load_each [] s = ([], s)"
| "load_each (call # calls) s =
     (case loadLinks s of
        (loaded, s1) \<Rightarrow>
          (case load_each calls s1 of (others, s2) \<Rightarrow> (loaded # others, s2)))"

fun finish_each ::
    "engine \<Rightarrow> ((js_error + json) \<times> create_call) list \<Rightarrow> fs \<Rightarrow> response list \<times> fs" where
  "finish_each e [] s = ([], s)"
| "finish_each e ((loaded, b, rnd) # calls) s =
     (case after_load e loaded b rnd s of
        (answer, s1) \<Rightarrow>
          (case finish_each e calls s1 of (answers, s2) \<Rightarrow> (answer # answers, s2)))"

definition overlapped :: "engine \<Rightarrow> create_call list \<Rightarrow> fs \<Rightarrow> response list \<times> fs" where
  "overlapped e calls s =
     (case load_each calls s of (loaded, s1) \<Rightarrow> finish_each e (zip loaded calls) s1)"

text \<open>The call that asks for code \<open>c\<close> with destination \<open>u\<close>.\<close>

definition create :: "string \<Rightarrow> string \<times> buffer4 \<Rightarrow> create_call" where
  "create c = (\<lambda>(u, rnd). (Body_object (Some u) (Some c), rnd))"

subsection \<open>Saving what was just loaded\<close>

text \<open>\<open>saveLinks(await loadLinks())\<close>: persisting a table straight after loading it.\<close>

definition save_load :: "fs \<Rightarrow> (js_error + unit) \<times> fs" where
  "save_load s =
     (case loadLinks s of
        (Inl error, s1) \<Rightarrow> (Inl error, s1)
      | (Inr links, s1) \<Rightarrow> saveLinks links s1)"

text \<open>A well-formed record holds a table: an object whose every value is a string.\<close>

definition is_table :: "json \<Rightarrow> bool" where
  "is_table v =
     (case v of
        JObj m \<Rightarrow> (\<forall>x \<in> ran m. case x of JStr u \<Rightarrow> True | _ \<Rightarrow> False)
      | _ \<Rightarrow> False)"

subsection \<open>Sample stores\<close>

text \<open>
  Stores used where a property is evaluated: links.json holding \<open>{}\<close>, a zero-length
  links.json, one that JSON.parse rejects (such as a lone \<open>{\<close>), no links.json at all,
  \<open>{}\<close> on a file system that refuses writes, no links.json on such a file system, and
  links.json holding \<open>[]\<close>.
\<close>

definition store_empty :: fs where
  "store_empty =
     \<lparr>data_file = Present (Json_text (JObj Map.empty)), read_only = False,
      public_dir = Map.empty\<rparr>"

definition store_zero_length :: fs where
  "store_zero_length =
     \<lparr>data_file = Present Zero_length, read_only = False, public_dir = Map.empty\<rparr>"

definition store_corrupt :: fs where
  "store_corrupt =
     \<lparr>data_file = Present Unparseable, read_only = False, public_dir = Map.empty\<rparr>"

definition store_missing :: fs where
  "store_missing = \<lparr>data_file = Absent, read_only = False, public_dir = Map.empty\<rparr>"

definition store_read_only :: fs where
  "store_read_only =
     \<lparr>data_file = Present (Json_text (JObj Map.empty)), read_only = True,
      public_dir = Map.empty\<rparr>"

definition store_missing_read_only :: fs where
  "store_missing_read_only = \<lparr>data_file = Absent, read_only = True, public_dir = Map.empty\<rparr>"

definition store_array :: fs where
  "store_array =
     \<lparr>data_file = Present (Json_text (JArr [])), read_only = False, public_dir = Map.empty\<rparr>"

text \<open>The store whose links.json reads as the value \<open>v\<close>.\<close>

definition store_holding :: "json \<Rightarrow> fs" where
  "store_holding v =
     \<lparr>data_file = Present (Json_text v), read_only = False, public_dir = Map.empty\<rparr>"

definition zero_bytes :: buffer4 where
  "zero_bytes = (0, 0, 0, 0)"

text \<open>
  The evaluations below are on records that hold an object, \<open>null\<close> or a number,
  where the engine is never asked. This value fills the parameter there; it stands for
  no particular engine.
\<close>

definition engine0 :: engine where
  "engine0 =
     \<lparr>string_member = (\<lambda>s key. Undefined), array_member = (\<lambda>xs key. Undefined),
      array_assigned = (\<lambda>xs key url. Inr (JArr xs)), structure_accepted = (\<lambda>v. True)\<rparr>"

section \<open>Properties\<close>

subsection \<open>What loadLinks and saveLinks do, by the state of the file\<close>

lemma loadLinks_Present:
  "data_file s = Present c \<Longrightarrow>
   loadLinks s =
     (case c of
        Zero_length \<Rightarrow> (Inr (JObj Map.empty), s)
      | Unparseable \<Rightarrow> (Inl SyntaxError, s)
      | Json_text v \<Rightarrow> (Inr v, s))"
  by (simp add: loadLinks_def readFile_def JSON_parse_def split: content.splits)

lemma loadLinks_Absent:
  "data_file s = Absent \<Longrightarrow>
   loadLinks s =
     (if read_only s then (Inl (SystemError EROFS), s)
      else (Inr (JObj Map.empty), s\<lparr>data_file := Present (Json_text (JObj Map.empty))\<rparr>))"
  by (simp add: loadLinks_def readFile_def writeFile_def JSON_stringify_def)

lemma loadLinks_Directory:
  "data_file s = Directory \<Longrightarrow> loadLinks s = (Inl (SystemError EISDIR), s)"
  by (simp add: loadLinks_def readFile_def)

lemma loadLinks_Inr:
  assumes "loadLinks s = (Inr links, s1)"
  shows "\<exists>c. data_file s1 = Present c \<and> c \<noteq> Unparseable"
    and "read_only s1 = read_only s"
    and "loadLinks s1 = (Inr links, s1)"
    and "data_file s \<noteq> Absent \<Longrightarrow> s1 = s"
proof -
  show "\<exists>c. data_file s1 = Present c \<and> c \<noteq> Unparseable"
  proof (cases "data_file s")
    case Absent
    with assms show ?thesis by (auto simp: loadLinks_Absent split: if_splits)
  next
    case Directory
    with assms show ?thesis by (simp add: loadLinks_Directory)
  next
    case (Present c)
    with assms show ?thesis by (cases c) (auto simp: loadLinks_Present)
  qed
  show "read_only s1 = read_only s"
  proof (cases "data_file s")
    case Absent
    with assms show ?thesis by (auto simp: loadLinks_Absent split: if_splits)
  next
    case Directory
    with assms show ?thesis by (simp add: loadLinks_Directory)
  next
    case (Present c)
    with assms show ?thesis by (cases c) (auto simp: loadLinks_Present)
  qed
  show "loadLinks s1 = (Inr links, s1)"
  proof (cases "data_file s")
    case Absent
    with assms show ?thesis by (auto simp: loadLinks_Absent loadLinks_Present split: if_splits)
  next
    case Directory
    with assms show ?thesis by (simp add: loadLinks_Directory)
  next
    case (Present c)
    with assms show ?thesis by (cases c) (auto simp: loadLinks_Present)
  qed
  show "s1 = s" if "data_file s \<noteq> Absent"
  proof (cases "data_file s")
    case Absent
    with that show ?thesis by simp
  next
    case Directory
    with assms show ?thesis by (simp add: loadLinks_Directory)
  next
    case (Present c)
    with assms show ?thesis by (cases c) (auto simp: loadLinks_Present)
  qed
qed

lemma saveLinks_writable:
  "\<not> read_only s \<Longrightarrow> data_file s \<noteq> Directory \<Longrightarrow>
   saveLinks links s = (Inr (), s\<lparr>data_file := Present (JSON_stringify links)\<rparr>)"
  by (simp add: saveLinks_def writeFile_def)

lemma saveLinks_read_only:
  "read_only s \<Longrightarrow> saveLinks links s = (Inl (SystemError EROFS), s)"
  by (simp add: saveLinks_def writeFile_def)

lemma stringified_table: "is_table v \<Longrightarrow> stringified v = v"
proof (cases v)
  case (JObj m)
  assume t: "is_table v"
  have "map_option stringified (m k) = m k" for k
  proof (cases "m k")
    case None
    then show ?thesis by simp
  next
    case (Some x)
    then have "x \<in> ran m" by (auto simp: ran_def)
    with t JObj have "case x of JStr u \<Rightarrow> True | _ \<Rightarrow> False"
      by (simp add: is_table_def)
    then obtain u where "x = JStr u" by (cases x) simp_all
    with Some show ?thesis by simp
  qed
  then have "map_option stringified \<circ> m = m" by (auto simp: fun_eq_iff)
  with JObj show ?thesis by simp
qed (simp_all add: is_table_def)

lemma get_property_object: "get_property e (JObj m) key = Inr (object_member m key)"
  by (simp add: get_property_def)

lemma set_property_free:
  "\<not> truthy (object_member m code) \<Longrightarrow>
   set_property e (JObj m) code url = Inr (JObj (m(code \<mapsto> JStr url)))"
  by (auto simp: object_member_def set_property_def inherited_def object_prototype_names_def
      split: option.splits if_splits)

lemma object_member_own: "m code = Some v \<Longrightarrow> object_member m code = Json v"
  by (simp add: object_member_def)

lemma after_load_object:
  "after_load e (Inr (JObj m)) (Body_object (Some url) shortCode) rnd s =
     (if url = [] then (url_required, s)
      else if truthy (object_member m (finalShortCode shortCode rnd)) then (code_exists, s)
      else (case saveLinks (JObj (m(finalShortCode shortCode rnd \<mapsto> JStr url))) s of
              (Inl error, s2) \<Rightarrow> (server_error, s2)
            | (Inr u, s2) \<Rightarrow>
                (Response 201 json (Json_created (finalShortCode shortCode rnd)), s2)))"
  by (simp add: after_load_def Let_def get_property_object set_property_free)

lemma shorten_object:
  assumes "loadLinks s = (Inr (JObj m), s1)"
  shows "shorten e (Body_object (Some url) shortCode) rnd s =
     (if url = [] then (url_required, s1)
      else if truthy (object_member m (finalShortCode shortCode rnd)) then (code_exists, s1)
      else if read_only s then (server_error, s1)
      else (Response 201 json (Json_created (finalShortCode shortCode rnd)),
            s1\<lparr>data_file := Present (JSON_stringify
                   (JObj (m(finalShortCode shortCode rnd \<mapsto> JStr url))))\<rparr>))"
proof -
  from loadLinks_Inr(1)[OF assms] have nd: "data_file s1 \<noteq> Directory" by auto
  from loadLinks_Inr(2)[OF assms] have ro: "read_only s1 = read_only s" .
  show ?thesis
    using assms nd ro
    by (simp add: shorten_def after_load_object saveLinks_writable saveLinks_read_only)
qed

lemma shorten_load_failure:
  "fst (loadLinks s) = Inl error \<Longrightarrow> fst (shorten e b rnd s) = server_error"
  by (cases "loadLinks s") (simp add: shorten_def after_load_def)

subsection \<open>Generated codes spell the random bytes\<close>

lemma hex_digit_in: "n < 16 \<Longrightarrow> hex_digit n \<in> set ''0123456789abcdef''"
  unfolding hex_digit_def by (rule nth_mem) simp

lemma hex_digit_inj:
  assumes "n < 16" and "m < 16" and "hex_digit n = hex_digit m"
  shows "n = m"
proof -
  have "distinct ''0123456789abcdef''" by simp
  moreover have "n < length ''0123456789abcdef''" and "m < length ''0123456789abcdef''"
    using assms(1,2) by simp_all
  ultimately show ?thesis
    using assms(3) unfolding hex_digit_def by (simp only: nth_eq_iff_index_eq)
qed

lemma unat_byte: "unat (b :: 8 word) < 256"
  using unsigned_less[of b] by simp

lemma hex_byte_set: "set (hex_byte b) \<subseteq> set ''0123456789abcdef''"
proof -
  have "unat b div 16 < 16" using unat_byte[of b] by simp
  then have hi: "hex_digit (unat b div 16) \<in> set ''0123456789abcdef''" by (rule hex_digit_in)
  have "unat b mod 16 < 16" by simp
  then have lo: "hex_digit (unat b mod 16) \<in> set ''0123456789abcdef''" by (rule hex_digit_in)
  have "set (hex_byte b) = {hex_digit (unat b div 16), hex_digit (unat b mod 16)}"
    by (simp add: hex_byte_def)
  with hi lo show ?thesis by (simp only: insert_subset empty_subsetI simp_thms)
qed

lemma length_hex_byte: "length (hex_byte b) = 2"
  by (simp add: hex_byte_def)

lemma hex_byte_inj:
  assumes "hex_byte a = hex_byte b"
  shows "a = b"
proof -
  from assms have d: "hex_digit (unat a div 16) = hex_digit (unat b div 16)"
    and m: "hex_digit (unat a mod 16) = hex_digit (unat b mod 16)"
    by (simp_all add: hex_byte_def)
  have da: "unat a div 16 < 16" and db: "unat b div 16 < 16"
    using unat_byte[of a] unat_byte[of b] by simp_all
  have d': "unat a div 16 = unat b div 16" by (rule hex_digit_inj[OF da db d])
  have ma: "unat a mod 16 < 16" and mb: "unat b mod 16 < 16" by simp_all
  have m': "unat a mod 16 = unat b mod 16" by (rule hex_digit_inj[OF ma mb m])
  have "unat a = 16 * (unat a div 16) + unat a mod 16" by simp
  also have "\<dots> = 16 * (unat b div 16) + unat b mod 16" using d' m' by simp
  also have "\<dots> = unat b" by simp
  finally show ?thesis by (simp add: word_unat_eq_iff)
qed

lemma length_toString_hex: "length (toString_hex r) = 8"
  by (cases r) (simp add: length_hex_byte)

lemma set_toString_hex: "set (toString_hex r) \<subseteq> set ''0123456789abcdef''"
  by (cases r) (use hex_byte_set in \<open>simp del: set_simps\<close>)

lemma toString_hex_inj: "toString_hex r = toString_hex r' \<Longrightarrow> r = r'"
proof -
  obtain a0 a1 a2 a3 where r: "r = (a0, a1, a2, a3)" by (cases r)
  obtain b0 b1 b2 b3 where r': "r' = (b0, b1, b2, b3)" by (cases r')
  assume "toString_hex r = toString_hex r'"
  with r r' have "hex_byte a0 = hex_byte b0 \<and> hex_byte a1 = hex_byte b1
      \<and> hex_byte a2 = hex_byte b2 \<and> hex_byte a3 = hex_byte b3"
    by (simp add: append_eq_append_conv length_hex_byte)
  with r r' show ?thesis by (simp add: hex_byte_inj)
qed

lemma toString_hex_not_inherited: "toString_hex r \<notin> set object_prototype_names"
proof
  assume a: "toString_hex r \<in> set object_prototype_names"
  have "\<forall>n \<in> set object_prototype_names. \<not> set n \<subseteq> set ''0123456789abcdef''"
    by (simp add: object_prototype_names_def)
  with a set_toString_hex show False by blast
qed

lemma digit_value_hex_digit: "n < 16 \<Longrightarrow> digit_value (hex_digit n) = n"
proof -
  have "\<forall>n \<in> set [0..<16]. digit_value (hex_digit n) = n"
    by code_simp
  then show "n < 16 \<Longrightarrow> digit_value (hex_digit n) = n" by simp
qed

lemma from_hex_toString_hex: "from_hex (toString_hex r) = bytes_value r"
proof -
  obtain b0 b1 b2 b3 where r: "r = (b0, b1, b2, b3)" by (cases r)
  have v: "16 * digit_value (hex_digit (unat b div 16)) + digit_value (hex_digit (unat b mod 16))
        = unat b" for b :: "8 word"
  proof -
    have "unat b div 16 < 16" using unat_byte[of b] by simp
    then show ?thesis by (simp add: digit_value_hex_digit)
  qed
  have "from_hex (toString_hex r) =
     ((((16 * digit_value (hex_digit (unat b0 div 16)) + digit_value (hex_digit (unat b0 mod 16)))
        * 256
       + (16 * digit_value (hex_digit (unat b1 div 16)) + digit_value (hex_digit (unat b1 mod 16))))
        * 256
       + (16 * digit_value (hex_digit (unat b2 div 16)) + digit_value (hex_digit (unat b2 mod 16))))
        * 256
       + (16 * digit_value (hex_digit (unat b3 div 16)) + digit_value (hex_digit (unat b3 mod 16))))"
    by (simp add: r from_hex_def hex_byte_def)
  also have "\<dots> = bytes_value r"
    by (simp only: v r bytes_value.simps)
  finally show ?thesis .
qed

subsection \<open>Creating a link\<close>

text \<open>
  Claim C1: for every valid pair (destination, requestedCode) whose code is absent from
  the table, createLink succeeds, the table gains code to destination and is persisted,
  the code is returned, and resolving the code then gives the destination.

  The handler tests \<open>links[finalShortCode]\<close>, which also finds the properties every
  object inherits from Object.prototype. On the empty table \<open>{}\<close> the code
  \<open>toString\<close> is absent, yet the request is answered 400 "Short code already exists"
  and nothing is written.
\<close>

theorem inherited_name_taken_for_conflict:
  "fst (loadLinks store_empty) = Inr (JObj Map.empty) \<and>
   shorten engine0 (Body_object (Some ''https://example.com'') (Some ''toString'')) zero_bytes
     store_empty = (code_exists, store_empty)"
  by (simp add: store_empty_def loadLinks_Present shorten_object finalShortCode_def
      object_member_def inherited_def object_prototype_names_def)

text \<open>
  For a code that is neither in the table nor the name of an inherited property the
  create is answered 201 with the code and the file gains the entry. A later GET of
  \<open>/\<close> followed by the code, when that is not one of the fixed routes, redirects to
  the destination if writeHead accepts it as a header value, and is answered 404 if not.
\<close>

lemma created_then_resolved:
  assumes "loadLinks s = (Inr (JObj m), s1)" and "\<not> read_only s"
    and "url \<noteq> []" and "code \<noteq> []"
    and "m code = None" and "code \<notin> set object_prototype_names"
    and "s2 = s1\<lparr>data_file := Present (JSON_stringify (JObj (m(code \<mapsto> JStr url))))\<rparr>"
  shows "shorten e (Body_object (Some url) (Some code)) rnd s =
           (Response 201 json (Json_created code), s2)"
    and "code \<notin> {''style.css'', ''index.js'', ''links''} \<Longrightarrow>
         server e (GET_path (CHR ''/'' # code)) rnd' s2 =
           (if header_text_ok url then Inr (Response 301 (Location (Str url)) No_body)
            else Inr not_found, s2)"
proof -
  have f: "finalShortCode (Some code) rnd = code"
    using assms(4) by (simp add: finalShortCode_def)
  have g: "\<not> truthy (object_member m code)"
    using assms(5,6) by (simp add: object_member_def inherited_def)
  show "shorten e (Body_object (Some url) (Some code)) rnd s =
           (Response 201 json (Json_created code), s2)"
    using assms(2,3,7) f g by (simp add: shorten_object[OF assms(1)])
  have "data_file s2 =
      Present (Json_text (JObj (map_option stringified \<circ> m(code \<mapsto> JStr url))))"
    using assms(7) by (simp add: JSON_stringify_def)
  then have l: "loadLinks s2 = (Inr (JObj (map_option stringified \<circ> m(code \<mapsto> JStr url))), s2)"
    by (simp add: loadLinks_Present)
  have r: "redirection e (CHR ''/'' # code) s2 =
      (if header_text_ok url then Some (Response 301 (Location (Str url)) No_body) else None, s2)"
    using assms(3) l
    by (simp add: redirection_def get_property_object object_member_def location_accepted_def)
  assume "code \<notin> {''style.css'', ''index.js'', ''links''}"
  with assms(4) r show "server e (GET_path (CHR ''/'' # code)) rnd' s2 =
           (if header_text_ok url then Inr (Response 301 (Location (Str url)) No_body)
            else Inr not_found, s2)"
    by (simp add: server_def)
qed

lemma shorten_201:
  assumes "loadLinks s = (Inr (JObj m), s1)"
    and "shorten e (Body_object (Some url) shortCode) rnd s = (r, s')" and "status r = 201"
  shows "\<exists>m'. data_file s' = Present (Json_text (JObj m'))
           \<and> m' (finalShortCode shortCode rnd) = Some (JStr url) \<and> url \<noteq> []"
proof -
  from assms(2,3) have
    "s' = s1\<lparr>data_file := Present (JSON_stringify
              (JObj (m(finalShortCode shortCode rnd \<mapsto> JStr url))))\<rparr> \<and> url \<noteq> []"
    unfolding shorten_object[OF assms(1)]
    by (auto simp: url_required_def code_exists_def server_error_def split: if_splits)
  then show ?thesis by (simp add: JSON_stringify_def)
qed

lemma conflict_on_held_code:
  assumes "data_file s = Present (Json_text (JObj m))" and "m code = Some (JStr url)"
    and "url \<noteq> []" and "code \<noteq> []" and "url' \<noteq> []"
  shows "shorten e (Body_object (Some url') (Some code)) rnd s = (code_exists, s)"
proof -
  have f: "finalShortCode (Some code) rnd = code"
    using assms(4) by (simp add: finalShortCode_def)
  from assms(1) have "loadLinks s = (Inr (JObj m), s)" by (simp add: loadLinks_Present)
  then show ?thesis
    using assms(2,3,5) f by (simp add: shorten_object object_member_own)
qed

text \<open>
  Claim C2: the table being an object, after a create with an explicit code has succeeded
  (status 201), a second create with the same code and any destination fails with the
  conflict answer (400, "Short code already exists"), and the store is left exactly as
  it was.
\<close>

theorem second_create_conflicts:
  assumes "fst (loadLinks s) = Inr (JObj m)"
    and "shorten e (Body_object (Some url) (Some code)) rnd s = (r, s')"
    and "status r = 201"
    and "code \<noteq> []"
    and "url' \<noteq> []"
  shows "shorten e (Body_object (Some url') (Some code)) rnd' s' = (code_exists, s')"
proof -
  from assms(1) obtain s1 where l: "loadLinks s = (Inr (JObj m), s1)"
    by (cases "loadLinks s") simp
  from shorten_201[OF l assms(2,3)] obtain m' where
    d: "data_file s' = Present (Json_text (JObj m'))" and
    h: "m' (finalShortCode (Some code) rnd) = Some (JStr url)" and u: "url \<noteq> []"
    by blast
  have "finalShortCode (Some code) rnd = code"
    using assms(4) by (simp add: finalShortCode_def)
  with h have "m' code = Some (JStr url)" by simp
  from conflict_on_held_code[OF d this u assms(4,5)] show ?thesis .
qed

theorem second_create_conflicts_witness:
  "fst (loadLinks store_empty) = Inr (JObj Map.empty)
   \<and> shorten engine0 (Body_object (Some ''https://example.com'') (Some ''abc'')) zero_bytes
        store_empty
     = (Response 201 json (Json_created ''abc''),
        store_empty\<lparr>data_file :=
          Present (Json_text (JObj [''abc'' \<mapsto> JStr ''https://example.com'']))\<rparr>)
   \<and> shorten engine0 (Body_object (Some ''https://example.org'') (Some ''abc'')) zero_bytes
        (store_empty\<lparr>data_file :=
          Present (Json_text (JObj [''abc'' \<mapsto> JStr ''https://example.com'']))\<rparr>)
     = (code_exists,
        store_empty\<lparr>data_file :=
          Present (Json_text (JObj [''abc'' \<mapsto> JStr ''https://example.com'']))\<rparr>)"
proof -
  have l: "fst (loadLinks store_empty) = Inr (JObj Map.empty)"
    by (simp add: store_empty_def loadLinks_Present)
  have first: "shorten engine0 (Body_object (Some ''https://example.com'') (Some ''abc''))
        zero_bytes store_empty
     = (Response 201 json (Json_created ''abc''),
        store_empty\<lparr>data_file :=
          Present (Json_text (JObj [''abc'' \<mapsto> JStr ''https://example.com'']))\<rparr>)"
    by (simp add: store_empty_def loadLinks_Present shorten_object finalShortCode_def
        object_member_def inherited_def object_prototype_names_def JSON_stringify_def)
  have ok: "status (Response 201 json (Json_created ''abc'')) = 201" by simp
  have c: "''abc'' \<noteq> []" and u: "''https://example.org'' \<noteq> []" by simp_all
  from l first second_create_conflicts[OF l first ok c u, of zero_bytes] show ?thesis by simp
qed




subsection \<open>Loading\<close>

text \<open>
  Claim C4, as stated: loadLinks returns the empty table and creates the record when there
  is none, returns the empty table for a zero-length record, and fails with CorruptStore
  for a non-empty record that does not parse as the expected format. Two inputs go
  otherwise. With no record on a file system that refuses the write, the \<open>catch\<close>
  block's writeFile throws: loadLinks fails and creates nothing. And a record that is
  valid JSON but no table, such as \<open>[]\<close>, is returned as it is, with no error:
  nothing in loadLinks looks at what JSON.parse returned.
\<close>

theorem loadLinks_refused_write_and_array:
  "loadLinks store_missing_read_only = (Inl (SystemError EROFS), store_missing_read_only)
   \<and> loadLinks store_array = (Inr (JArr []), store_array)
   \<and> \<not> is_table (JArr [])"
  by (simp add: store_missing_read_only_def store_array_def loadLinks_Absent loadLinks_Present
      is_table_def)

text \<open>
  Claim C4, amended: with no record, loadLinks creates the record \<open>{}\<close> and returns the
  empty table when the file system accepts the write, and fails with the error of the
  write, creating nothing, when it does not; for a zero-length record it returns the
  empty table and no parse error; for a record that JSON.parse rejects it fails with the
  SyntaxError and leaves the record as it is; a record that JSON.parse accepts is returned
  as the table whatever JSON value it is.
\<close>

theorem loadLinks_by_record:
  "(data_file s = Absent \<and> \<not> read_only s \<longrightarrow>
      loadLinks s =
        (Inr (JObj Map.empty), s\<lparr>data_file := Present (JSON_stringify (JObj Map.empty))\<rparr>))
   \<and> (data_file s = Absent \<and> read_only s \<longrightarrow>
      loadLinks s = (Inl (SystemError EROFS), s))
   \<and> (data_file s = Present Zero_length \<longrightarrow> loadLinks s = (Inr (JObj Map.empty), s))
   \<and> (data_file s = Present Unparseable \<longrightarrow> loadLinks s = (Inl SyntaxError, s))
   \<and> (data_file s = Present (Json_text v) \<longrightarrow> loadLinks s = (Inr v, s))"
  by (simp add: loadLinks_Absent loadLinks_Present JSON_stringify_def)

theorem loadLinks_by_record_witness:
  "(data_file store_missing = Absent \<and> \<not> read_only store_missing
      \<and> loadLinks store_missing = (Inr (JObj Map.empty), store_empty))
   \<and> (data_file store_missing_read_only = Absent \<and> read_only store_missing_read_only
      \<and> loadLinks store_missing_read_only
          = (Inl (SystemError EROFS), store_missing_read_only))
   \<and> (data_file store_zero_length = Present Zero_length
      \<and> loadLinks store_zero_length = (Inr (JObj Map.empty), store_zero_length))
   \<and> (data_file store_corrupt = Present Unparseable
      \<and> loadLinks store_corrupt = (Inl SyntaxError, store_corrupt))
   \<and> (data_file store_array = Present (Json_text (JArr []))
      \<and> loadLinks store_array = (Inr (JArr []), store_array))"
proof -
  have a: "data_file store_missing = Absent \<and> \<not> read_only store_missing"
    by (simp add: store_missing_def)
  have e: "store_missing\<lparr>data_file := Present (JSON_stringify (JObj Map.empty))\<rparr> = store_empty"
    by (simp add: store_missing_def store_empty_def JSON_stringify_def)
  have r: "data_file store_missing_read_only = Absent \<and> read_only store_missing_read_only"
    by (simp add: store_missing_read_only_def)
  have z: "data_file store_zero_length = Present Zero_length"
    by (simp add: store_zero_length_def)
  have c: "data_file store_corrupt = Present Unparseable"
    by (simp add: store_corrupt_def)
  have y: "data_file store_array = Present (Json_text (JArr []))"
    by (simp add: store_array_def)
  from a e r z c y
    loadLinks_by_record[of store_missing]
    loadLinks_by_record[of store_missing_read_only]
    loadLinks_by_record[of store_zero_length]
    loadLinks_by_record[of store_corrupt]
    loadLinks_by_record[of store_array "JArr []"]
  show ?thesis by simp
qed

subsection \<open>Overlapping creates\<close>

lemma create_simp: "create c (u, rnd) = (Body_object (Some u) (Some c), rnd)"
  by (simp add: create_def)

lemma serial_conflicts:
  assumes "data_file s = Present (Json_text (JObj m))" and "m c = Some (JStr url)"
    and "url \<noteq> []" and "c \<noteq> []" and "\<forall>call \<in> set calls. fst call \<noteq> []"
  shows "serial e (map (create c) calls) s = (replicate (length calls) code_exists, s)"
  using assms(5)
proof (induction calls)
  case Nil
  show ?case by simp
next
  case (Cons call calls)
  obtain u rnd where call: "call = (u, rnd)" by (cases call)
  with Cons.prems have u: "u \<noteq> []" by simp
  from Cons have ih: "serial e (map (create c) calls) s = (replicate (length calls) code_exists, s)"
    by simp
  from conflict_on_held_code[OF assms(1,2,3,4) u]
  have "shorten e (Body_object (Some u) (Some c)) rnd s = (code_exists, s)" .
  with call ih show ?case by (simp add: create_simp)
qed

lemma load_each_stable:
  "loadLinks s = (Inr v, s) \<Longrightarrow> load_each calls s = (replicate (length calls) (Inr v), s)"
  by (induction calls) simp_all

lemma load_each_loaded:
  assumes "loadLinks s = (Inr v, s1)"
  shows "load_each (call # calls) s = (replicate (Suc (length calls)) (Inr v), s1)"
  using assms load_each_stable[OF loadLinks_Inr(3)[OF assms], of calls] by simp

lemma zip_replicate_length: "zip (replicate (length ys) x) ys = map (Pair x) ys"
  by (induction ys) simp_all

lemma finish_each_free:
  assumes "\<not> truthy (object_member m c)" and "c \<noteq> []"
  shows "\<not> read_only s \<Longrightarrow> data_file s \<noteq> Directory \<Longrightarrow>
         \<forall>call \<in> set calls. fst call \<noteq> [] \<Longrightarrow>
         finish_each e (map (Pair (Inr (JObj m))) (map (create c) calls)) s =
           (replicate (length calls) (Response 201 json (Json_created c)),
            if calls = [] then s
            else s\<lparr>data_file := Present (JSON_stringify
                   (JObj (m(c \<mapsto> JStr (fst (last calls))))))\<rparr>)"
proof (induction calls arbitrary: s)
  case Nil
  show ?case by simp
next
  case (Cons call calls)
  obtain u rnd where call: "call = (u, rnd)" by (cases call)
  with Cons.prems have u: "u \<noteq> []" by simp
  have f: "finalShortCode (Some c) rnd = c"
    using assms(2) by (simp add: finalShortCode_def)
  let ?s1 = "s\<lparr>data_file := Present (JSON_stringify (JObj (m(c \<mapsto> JStr u))))\<rparr>"
  have step: "after_load e (Inr (JObj m)) (Body_object (Some u) (Some c)) rnd s =
      (Response 201 json (Json_created c), ?s1)"
    using assms(1) u f Cons.prems(1,2)
    by (simp add: after_load_object saveLinks_writable)
  have "\<not> read_only ?s1" and "data_file ?s1 \<noteq> Directory"
    using Cons.prems(1) by simp_all
  moreover have "\<forall>call \<in> set calls. fst call \<noteq> []" using Cons.prems(3) by simp
  ultimately have ih: "finish_each e (map (Pair (Inr (JObj m))) (map (create c) calls)) ?s1 =
           (replicate (length calls) (Response 201 json (Json_created c)),
            if calls = [] then ?s1
            else ?s1\<lparr>data_file := Present (JSON_stringify
                   (JObj (m(c \<mapsto> JStr (fst (last calls))))))\<rparr>)"
    by (rule Cons.IH)
  show ?case using call step ih by (simp add: create_simp)
qed

text \<open>
  Claim C6, as stated: K concurrent creates of one explicit code give exactly one success
  and K - 1 conflicts, the load-check-insert-persist sequence being serialized. The
  handler holds no lock across its awaits. When two creates of \<open>abc\<close> both load the
  empty table before either saves, both are answered 201, and the second save overwrites
  the destination of the first.
\<close>

theorem two_overlapped_creates_both_succeed:
  "overlapped engine0
     [create ''abc'' (''https://a.example'', zero_bytes),
      create ''abc'' (''https://b.example'', zero_bytes)] store_empty
   = ([Response 201 json (Json_created ''abc''), Response 201 json (Json_created ''abc'')],
      store_holding (JObj [''abc'' \<mapsto> JStr ''https://b.example'']))
   \<and> Response 201 json (Json_created ''abc'') \<noteq> code_exists"
  by (simp add: overlapped_def create_simp store_empty_def store_holding_def loadLinks_Present
      after_load_object finalShortCode_def object_member_def inherited_def
      object_prototype_names_def saveLinks_writable JSON_stringify_def code_exists_def)

text \<open>
  Claim C6, amended: on a table that is an object and does not hold the code, with a file
  system that accepts writes, K creates of one explicit code, K at least 1, that run one
  after the other give exactly one success, the first, and K - 1 conflicts, and the table
  holds the code with the first destination; K creates that all load before any of them
  saves are all answered 201, and the table holds the code with the destination of the
  last to save.
\<close>

theorem serial_creates_conflict_overlapped_succeed:
  "loadLinks s = (Inr (JObj m), s1) \<and> \<not> read_only s \<and> \<not> truthy (object_member m c)
     \<and> c \<noteq> [] \<and> (\<forall>call \<in> set (call # calls). fst call \<noteq> []) \<longrightarrow>
   serial e (map (create c) (call # calls)) s =
     (Response 201 json (Json_created c) # replicate (length calls) code_exists,
      s1\<lparr>data_file := Present (JSON_stringify (JObj (m(c \<mapsto> JStr (fst call)))))\<rparr>)
   \<and> overlapped e (map (create c) (call # calls)) s =
     (replicate (Suc (length calls)) (Response 201 json (Json_created c)),
      s1\<lparr>data_file := Present (JSON_stringify
             (JObj (m(c \<mapsto> JStr (fst (last (call # calls)))))))\<rparr>)"
proof (intro impI conjI)
  assume a: "loadLinks s = (Inr (JObj m), s1) \<and> \<not> read_only s \<and> \<not> truthy (object_member m c)
     \<and> c \<noteq> [] \<and> (\<forall>call \<in> set (call # calls). fst call \<noteq> [])"
  then have l: "loadLinks s = (Inr (JObj m), s1)" and w: "\<not> read_only s"
    and free: "\<not> truthy (object_member m c)" and c: "c \<noteq> []"
    and us: "\<forall>call \<in> set (call # calls). fst call \<noteq> []"
    by simp_all
  obtain u rnd where call: "call = (u, rnd)" by (cases call)
  with us have u: "u \<noteq> []" and rest: "\<forall>call \<in> set calls. fst call \<noteq> []" by simp_all
  have f: "finalShortCode (Some c) rnd = c" using c by (simp add: finalShortCode_def)
  let ?s' = "s1\<lparr>data_file := Present (JSON_stringify (JObj (m(c \<mapsto> JStr u))))\<rparr>"
  have first: "shorten e (Body_object (Some u) (Some c)) rnd s =
      (Response 201 json (Json_created c), ?s')"
    using w free u f by (simp add: shorten_object[OF l])
  have d: "data_file ?s' = Present (Json_text (JObj (map_option stringified \<circ> m(c \<mapsto> JStr u))))"
    by (simp add: JSON_stringify_def)
  have h: "(map_option stringified \<circ> m(c \<mapsto> JStr u)) c = Some (JStr u)" by simp
  from serial_conflicts[OF d h u c rest]
  have "serial e (map (create c) calls) ?s' = (replicate (length calls) code_exists, ?s')" .
  with first call show "serial e (map (create c) (call # calls)) s =
     (Response 201 json (Json_created c) # replicate (length calls) code_exists,
      s1\<lparr>data_file := Present (JSON_stringify (JObj (m(c \<mapsto> JStr (fst call)))))\<rparr>)"
    by (simp add: create_simp)
  define cs where "cs = map (create c) (call # calls)"
  have n: "length cs = Suc (length calls)" by (simp add: cs_def)
  have "cs = create c call # map (create c) calls" by (simp add: cs_def)
  with load_each_loaded[OF l, of "create c call" "map (create c) calls"] n
  have le: "load_each cs s = (replicate (length cs) (Inr (JObj m)), s1)" by simp
  from loadLinks_Inr(1,2)[OF l] w have w1: "\<not> read_only s1" and nd: "data_file s1 \<noteq> Directory"
    by auto
  have z: "zip (replicate (length cs) (Inr (JObj m))) cs = map (Pair (Inr (JObj m))) cs"
    by (rule zip_replicate_length)
  from finish_each_free[OF free c w1 nd us, of e]
  have fe: "finish_each e (map (Pair (Inr (JObj m))) cs) s1 =
      (replicate (Suc (length calls)) (Response 201 json (Json_created c)),
       s1\<lparr>data_file := Present (JSON_stringify
             (JObj (m(c \<mapsto> JStr (fst (last (call # calls)))))))\<rparr>)"
    unfolding cs_def by simp
  have "overlapped e cs s =
     (replicate (Suc (length calls)) (Response 201 json (Json_created c)),
      s1\<lparr>data_file := Present (JSON_stringify
             (JObj (m(c \<mapsto> JStr (fst (last (call # calls)))))))\<rparr>)"
    by (simp only: overlapped_def le prod.case z fe)
  then show "overlapped e (map (create c) (call # calls)) s =
     (replicate (Suc (length calls)) (Response 201 json (Json_created c)),
      s1\<lparr>data_file := Present (JSON_stringify
             (JObj (m(c \<mapsto> JStr (fst (last (call # calls)))))))\<rparr>)"
    unfolding cs_def .
qed

theorem serial_creates_conflict_overlapped_succeed_witness:
  "loadLinks store_empty = (Inr (JObj Map.empty), store_empty) \<and> \<not> read_only store_empty
   \<and> \<not> truthy (object_member Map.empty ''abc'') \<and> ''abc'' \<noteq> []
   \<and> serial engine0
       [create ''abc'' (''https://a.example'', zero_bytes),
        create ''abc'' (''https://b.example'', zero_bytes),
        create ''abc'' (''https://c.example'', zero_bytes)] store_empty
     = ([Response 201 json (Json_created ''abc''), code_exists, code_exists],
        store_holding (JObj [''abc'' \<mapsto> JStr ''https://a.example'']))
   \<and> overlapped engine0
       [create ''abc'' (''https://a.example'', zero_bytes),
        create ''abc'' (''https://b.example'', zero_bytes),
        create ''abc'' (''https://c.example'', zero_bytes)] store_empty
     = ([Response 201 json (Json_created ''abc''), Response 201 json (Json_created ''abc''),
         Response 201 json (Json_created ''abc'')],
        store_holding (JObj [''abc'' \<mapsto> JStr ''https://c.example'']))"
proof -
  have l: "loadLinks store_empty = (Inr (JObj Map.empty), store_empty)"
    by (simp add: store_empty_def loadLinks_Present)
  have w: "\<not> read_only store_empty" by (simp add: store_empty_def)
  have free: "\<not> truthy (object_member Map.empty ''abc'')"
    by (simp add: object_member_def inherited_def object_prototype_names_def)
  have c: "''abc'' \<noteq> []" by simp
  have us: "\<forall>call \<in> set ((''https://a.example'', zero_bytes) #
      [(''https://b.example'', zero_bytes), (''https://c.example'', zero_bytes)]).
      fst call \<noteq> []" by simp
  have sa: "store_empty\<lparr>data_file := Present (JSON_stringify
      (JObj [''abc'' \<mapsto> JStr ''https://a.example'']))\<rparr>
      = store_holding (JObj [''abc'' \<mapsto> JStr ''https://a.example''])"
    by (simp add: store_empty_def store_holding_def JSON_stringify_def)
  have sc: "store_empty\<lparr>data_file := Present (JSON_stringify
      (JObj [''abc'' \<mapsto> JStr ''https://c.example'']))\<rparr>
      = store_holding (JObj [''abc'' \<mapsto> JStr ''https://c.example''])"
    by (simp add: store_empty_def store_holding_def JSON_stringify_def)
  from l w free c us sa sc
    serial_creates_conflict_overlapped_succeed[of store_empty Map.empty store_empty "''abc''"
      "(''https://a.example'', zero_bytes)"
      "[(''https://b.example'', zero_bytes), (''https://c.example'', zero_bytes)]" engine0]
  show ?thesis by simp
qed

subsection \<open>Listing\<close>

text \<open>
  Claim C7: GET /links answers 200 with the whole table when the store reads, and 500 when
  the read fails. The branch awaits loadLinks outside any \<open>try\<close>: on a record that
  does not parse the listener's promise is rejected with the SyntaxError and no response
  is written, where POST /shorten and serveFile answer 500.
\<close>

theorem links_route_rejects_on_read_failure:
  "server engine0 (GET_path ''/links'') zero_bytes store_corrupt
     = (Inl SyntaxError, store_corrupt)"
  by (simp add: server_def store_corrupt_def loadLinks_Present)

text \<open>The two outcomes of the branch in general.\<close>

lemma links_route_ok:
  assumes "loadLinks s = (Inr links, s1)"
  shows "server e \<lparr>req_method = ''GET'', req_url = ''/links'', req_body = b\<rparr> rnd s
           = (Inr (Response 200 json (Json_links (stringified links))), s1)"
  using assms by (simp add: server_def)

lemma links_route_failure:
  assumes "loadLinks s = (Inl error, s1)"
  shows "server e \<lparr>req_method = ''GET'', req_url = ''/links'', req_body = b\<rparr> rnd s
           = (Inl error, s1)"
  using assms by (simp add: server_def)

subsection \<open>Failures and their answers\<close>

lemma server_POST_shorten:
  "fst (server e (POST_shorten b) rnd s) = Inr (fst (shorten e b rnd s))"
  by (simp add: server_def split: prod.splits)

lemma shorten_body_unparseable: "fst (shorten e Body_unparseable rnd s) = server_error"
  by (simp add: shorten_def after_load_def split: prod.splits sum.splits)

lemma server_GET_other:
  assumes "p \<notin> {''/'', ''/style.css'', ''/index.js'', ''/links''}"
    and "fst (redirection e p s) = None"
  shows "fst (server e (GET_path p) rnd s) = Inr not_found"
proof -
  from assms(2) have "fst (case redirection e p s of
              (Some r, s1) \<Rightarrow> (Inr r, s1)
            | (None, s1) \<Rightarrow> (Inr not_found, s1)) = (Inr not_found :: js_error + response)"
    by (cases "redirection e p s") simp
  with assms(1) show ?thesis by (simp add: server_def)
qed

text \<open>
  Claim C8, as stated: no failure is swallowed; each is surfaced as its error kind or its
  mapped response, and the only negative outcome that is not a failure is "not found".
  The redirection catches the failure of loadLinks and falls through: on a record that
  does not parse, GET /abc is answered with the same 404 as for a code that is unknown.
\<close>

theorem redirection_hides_store_failure:
  "fst (loadLinks store_corrupt) = Inl SyntaxError
   \<and> fst (server engine0 (GET_path ''/abc'') zero_bytes store_corrupt) = Inr not_found
   \<and> fst (server engine0 (GET_path ''/abc'') zero_bytes store_corrupt) \<noteq> Inr server_error
   \<and> fst (server engine0 (GET_path ''/abc'') zero_bytes store_empty) = Inr not_found"
  by (simp add: server_def redirection_def store_corrupt_def store_empty_def loadLinks_Present
      get_property_object object_member_def inherited_def object_prototype_names_def
      not_found_def server_error_def)

text \<open>
  Claim C8, amended: in POST /shorten every failure is answered, a failure of the load, of
  parsing the body, of the property read, of the assignment or of the save with 500
  "Server error.", a missing or empty url with 400 "URL is required.", a code that is
  taken with 400 "Short code already exists"; in the redirection a failure of the load,
  of the property read or of writeHead is caught and the request is answered with the
  generic 404.
\<close>

theorem failures_of_create_and_resolve:
  "(fst (loadLinks s) = Inl error \<longrightarrow>
      fst (server e (POST_shorten b) rnd s) = Inr server_error)
   \<and> fst (server e (POST_shorten Body_unparseable) rnd s) = Inr server_error
   \<and> (loadLinks s = (Inr links, s1) \<longrightarrow>
        fst (server e (POST_shorten (Body_object None sc)) rnd s) = Inr url_required
        \<and> fst (server e (POST_shorten (Body_object (Some []) sc)) rnd s) = Inr url_required)
   \<and> (loadLinks s = (Inr links, s1) \<and> u \<noteq> []
        \<and> get_property e links (finalShortCode sc rnd) = Inl error1 \<longrightarrow>
        fst (server e (POST_shorten (Body_object (Some u) sc)) rnd s) = Inr server_error)
   \<and> (loadLinks s = (Inr links, s1) \<and> u \<noteq> []
        \<and> get_property e links (finalShortCode sc rnd) = Inr existing \<and> truthy existing \<longrightarrow>
        fst (server e (POST_shorten (Body_object (Some u) sc)) rnd s) = Inr code_exists)
   \<and> (loadLinks s = (Inr links, s1) \<and> u \<noteq> []
        \<and> get_property e links (finalShortCode sc rnd) = Inr existing \<and> \<not> truthy existing
        \<and> set_property e links (finalShortCode sc rnd) u = Inl error2 \<longrightarrow>
        fst (server e (POST_shorten (Body_object (Some u) sc)) rnd s) = Inr server_error)
   \<and> (loadLinks s = (Inr links, s1) \<and> u \<noteq> []
        \<and> get_property e links (finalShortCode sc rnd) = Inr existing \<and> \<not> truthy existing
        \<and> set_property e links (finalShortCode sc rnd) u = Inr links'
        \<and> fst (saveLinks links' s1) = Inl error3 \<longrightarrow>
        fst (server e (POST_shorten (Body_object (Some u) sc)) rnd s) = Inr server_error)
   \<and> (p \<notin> {''/'', ''/style.css'', ''/index.js'', ''/links''}
        \<and> fst (loadLinks s) = Inl error \<longrightarrow>
        fst (server e (GET_path p) rnd s) = Inr not_found)
   \<and> (p \<notin> {''/'', ''/style.css'', ''/index.js'', ''/links''}
        \<and> loadLinks s = (Inr links, s1) \<and> get_property e links (drop 1 p) = Inl error1 \<longrightarrow>
        fst (server e (GET_path p) rnd s) = Inr not_found)
   \<and> (p \<notin> {''/'', ''/style.css'', ''/index.js'', ''/links''}
        \<and> loadLinks s = (Inr links, s1) \<and> get_property e links (drop 1 p) = Inr target
        \<and> truthy target \<and> \<not> location_accepted e target \<longrightarrow>
        fst (server e (GET_path p) rnd s) = Inr not_found)"
proof (intro conjI impI)
  assume "fst (loadLinks s) = Inl error"
  then show "fst (server e (POST_shorten b) rnd s) = Inr server_error"
    by (simp add: server_POST_shorten shorten_load_failure)
next
  show "fst (server e (POST_shorten Body_unparseable) rnd s) = Inr server_error"
    by (simp add: server_POST_shorten shorten_body_unparseable)
next
  assume "loadLinks s = (Inr links, s1)"
  then show "fst (server e (POST_shorten (Body_object None sc)) rnd s) = Inr url_required"
    by (simp add: server_POST_shorten shorten_def after_load_def)
next
  assume "loadLinks s = (Inr links, s1)"
  then show "fst (server e (POST_shorten (Body_object (Some []) sc)) rnd s) = Inr url_required"
    by (simp add: server_POST_shorten shorten_def after_load_def)
next
  assume "loadLinks s = (Inr links, s1) \<and> u \<noteq> []
        \<and> get_property e links (finalShortCode sc rnd) = Inl error1"
  then show "fst (server e (POST_shorten (Body_object (Some u) sc)) rnd s) = Inr server_error"
    by (simp add: server_POST_shorten shorten_def after_load_def)
next
  assume "loadLinks s = (Inr links, s1) \<and> u \<noteq> []
        \<and> get_property e links (finalShortCode sc rnd) = Inr existing \<and> truthy existing"
  then show "fst (server e (POST_shorten (Body_object (Some u) sc)) rnd s) = Inr code_exists"
    by (simp add: server_POST_shorten shorten_def after_load_def)
next
  assume "loadLinks s = (Inr links, s1) \<and> u \<noteq> []
        \<and> get_property e links (finalShortCode sc rnd) = Inr existing \<and> \<not> truthy existing
        \<and> set_property e links (finalShortCode sc rnd) u = Inl error2"
  then show "fst (server e (POST_shorten (Body_object (Some u) sc)) rnd s) = Inr server_error"
    by (simp add: server_POST_shorten shorten_def after_load_def)
next
  assume a: "loadLinks s = (Inr links, s1) \<and> u \<noteq> []
        \<and> get_property e links (finalShortCode sc rnd) = Inr existing \<and> \<not> truthy existing
        \<and> set_property e links (finalShortCode sc rnd) u = Inr links'
        \<and> fst (saveLinks links' s1) = Inl error3"
  then show "fst (server e (POST_shorten (Body_object (Some u) sc)) rnd s) = Inr server_error"
    by (cases "saveLinks links' s1") (simp add: server_POST_shorten shorten_def after_load_def)
next
  assume a: "p \<notin> {''/'', ''/style.css'', ''/index.js'', ''/links''}
        \<and> fst (loadLinks s) = Inl error"
  then have "fst (redirection e p s) = None"
    by (cases "loadLinks s") (simp add: redirection_def)
  with a show "fst (server e (GET_path p) rnd s) = Inr not_found"
    by (simp add: server_GET_other)
next
  assume a: "p \<notin> {''/'', ''/style.css'', ''/index.js'', ''/links''}
        \<and> loadLinks s = (Inr links, s1) \<and> get_property e links (drop 1 p) = Inl error1"
  then have "fst (redirection e p s) = None" by (simp add: redirection_def)
  with a show "fst (server e (GET_path p) rnd s) = Inr not_found"
    by (simp add: server_GET_other)
next
  assume a: "p \<notin> {''/'', ''/style.css'', ''/index.js'', ''/links''}
        \<and> loadLinks s = (Inr links, s1) \<and> get_property e links (drop 1 p) = Inr target
        \<and> truthy target \<and> \<not> location_accepted e target"
  then have "fst (redirection e p s) = None" by (simp add: redirection_def)
  with a show "fst (server e (GET_path p) rnd s) = Inr not_found"
    by (simp add: server_GET_other)
qed

theorem failures_of_create_and_resolve_witness:
  "fst (loadLinks store_corrupt) = Inl SyntaxError
   \<and> fst (server engine0 (POST_shorten (Body_object (Some ''https://example.com'') None))
        zero_bytes store_corrupt) = Inr server_error
   \<and> loadLinks store_read_only = (Inr (JObj Map.empty), store_read_only)
   \<and> fst (server engine0 (POST_shorten (Body_object None None)) zero_bytes store_read_only)
       = Inr url_required
   \<and> fst (server engine0 (POST_shorten (Body_object (Some []) None)) zero_bytes store_read_only)
       = Inr url_required
   \<and> get_property engine0 JNull ''abc'' = Inl TypeError
   \<and> fst (server engine0 (POST_shorten (Body_object (Some ''https://example.com'') (Some ''abc'')))
        zero_bytes (store_holding JNull)) = Inr server_error
   \<and> get_property engine0 (JObj Map.empty) ''valueOf'' = Inr (Inherited ''valueOf'')
   \<and> fst (server engine0
        (POST_shorten (Body_object (Some ''https://example.com'') (Some ''valueOf'')))
        zero_bytes store_read_only) = Inr code_exists
   \<and> set_property engine0 (JNum (Finite 42)) ''abc'' ''https://example.com'' = Inl TypeError
   \<and> fst (server engine0 (POST_shorten (Body_object (Some ''https://example.com'') (Some ''abc'')))
        zero_bytes (store_holding (JNum (Finite 42)))) = Inr server_error
   \<and> fst (saveLinks (JObj [''abc'' \<mapsto> JStr ''https://example.com'']) store_read_only)
       = Inl (SystemError EROFS)
   \<and> fst (server engine0 (POST_shorten (Body_object (Some ''https://example.com'') (Some ''abc'')))
        zero_bytes store_read_only) = Inr server_error
   \<and> fst (server engine0 (GET_path ''/abc'') zero_bytes store_corrupt) = Inr not_found
   \<and> fst (server engine0 (GET_path ''/abc'') zero_bytes (store_holding JNull)) = Inr not_found
   \<and> \<not> location_accepted engine0 (Str [CHR ''a'', CHR 0x0A, CHR ''b''])
   \<and> fst (server engine0 (GET_path ''/abc'') zero_bytes
        (store_holding (JObj [''abc'' \<mapsto> JStr [CHR ''a'', CHR 0x0A, CHR ''b'']])))
       = Inr not_found"
proof -
  note t = failures_of_create_and_resolve
  have first: "A1" and third: "A3" and fourth: "A4" and fifth: "A5" and sixth: "A6"
    and seventh: "A7" and eighth: "A8" and ninth: "A9" and tenth: "A10"
    if "A1 \<and> A2 \<and> A3 \<and> A4 \<and> A5 \<and> A6 \<and> A7 \<and> A8 \<and> A9 \<and> A10"
    for A1 A2 A3 A4 A5 A6 A7 A8 A9 A10 :: bool
    using that by simp_all
  let ?url = "''https://example.com''"
  let ?bad = "[CHR ''a'', CHR 0x0A, CHR ''b'']"
  have u: "?url \<noteq> []" by simp
  have p: "''/abc'' \<notin> {''/'', ''/style.css'', ''/index.js'', ''/links''}" by simp
  have fa: "finalShortCode (Some ''abc'') zero_bytes = ''abc''"
    and fv: "finalShortCode (Some ''valueOf'') zero_bytes = ''valueOf''"
    by (simp_all add: finalShortCode_def)
  have lc: "fst (loadLinks store_corrupt) = Inl SyntaxError"
    by (simp add: store_corrupt_def loadLinks_Present)
  have lr: "loadLinks store_read_only = (Inr (JObj Map.empty), store_read_only)"
    by (simp add: store_read_only_def loadLinks_Present)
  have lh: "loadLinks (store_holding v) = (Inr v, store_holding v)" for v
    by (simp add: store_holding_def loadLinks_Present)
  have r1: "fst (server engine0 (POST_shorten (Body_object (Some ?url) None))
        zero_bytes store_corrupt) = Inr server_error"
    by (rule t[where error = SyntaxError,
          THEN first, THEN mp]) (rule lc)
  have r3: "fst (server engine0 (POST_shorten (Body_object None None)) zero_bytes store_read_only)
       = Inr url_required
   \<and> fst (server engine0 (POST_shorten (Body_object (Some []) None)) zero_bytes store_read_only)
       = Inr url_required"
    by (rule t[where links = "JObj Map.empty" and ?s1.0 = store_read_only,
          THEN third, THEN mp])
       (rule lr)
  have g4: "get_property engine0 JNull ''abc'' = Inl TypeError"
    by (simp add: get_property_def)
  have r4: "fst (server engine0 (POST_shorten (Body_object (Some ?url) (Some ''abc'')))
        zero_bytes (store_holding JNull)) = Inr server_error"
    by (rule t[where links = JNull and ?s1.0 = "store_holding JNull"
          and ?error1.0 = TypeError,
          THEN fourth, THEN mp])
       (simp add: lh g4 fa)
  have g5: "get_property engine0 (JObj Map.empty) ''valueOf'' = Inr (Inherited ''valueOf'')"
    by (simp add: get_property_object object_member_def inherited_def
        object_prototype_names_def)
  have r5: "fst (server engine0 (POST_shorten (Body_object (Some ?url) (Some ''valueOf'')))
        zero_bytes store_read_only) = Inr code_exists"
    by (rule t[where links = "JObj Map.empty" and ?s1.0 = store_read_only
          and existing = "Inherited ''valueOf''",
          THEN fifth, THEN mp])
       (simp add: lr g5 fv)
  have g6: "get_property engine0 (JNum (Finite 42)) ''abc'' = Inr Undefined"
    by (simp add: get_property_def inherited_def number_prototype_names_def
        object_prototype_names_def)
  have s6: "set_property engine0 (JNum (Finite 42)) ''abc'' ?url = Inl TypeError"
    by (simp add: set_property_def)
  have r6: "fst (server engine0 (POST_shorten (Body_object (Some ?url) (Some ''abc'')))
        zero_bytes (store_holding (JNum (Finite 42)))) = Inr server_error"
    by (rule t[where links = "JNum (Finite 42)"
          and ?s1.0 = "store_holding (JNum (Finite 42))" and existing = Undefined
          and ?error2.0 = TypeError,
          THEN sixth, THEN mp])
       (simp add: lh g6 s6 fa)
  have g7: "get_property engine0 (JObj Map.empty) ''abc'' = Inr Undefined"
    by (simp add: get_property_object object_member_def inherited_def
        object_prototype_names_def)
  have s7: "set_property engine0 (JObj Map.empty) ''abc'' ?url
      = Inr (JObj [''abc'' \<mapsto> JStr ?url])"
    by (simp add: set_property_def)
  have v7: "fst (saveLinks (JObj [''abc'' \<mapsto> JStr ?url]) store_read_only)
       = Inl (SystemError EROFS)"
    by (simp add: saveLinks_read_only store_read_only_def)
  have r7: "fst (server engine0 (POST_shorten (Body_object (Some ?url) (Some ''abc'')))
        zero_bytes store_read_only) = Inr server_error"
    by (rule t[where links = "JObj Map.empty" and ?s1.0 = store_read_only
          and existing = Undefined and links' = "JObj [''abc'' \<mapsto> JStr ?url]"
          and ?error3.0 = "SystemError EROFS",
          THEN seventh, THEN mp])
       (simp add: lr g7 s7 v7 fa)
  have r8: "fst (server engine0 (GET_path ''/abc'') zero_bytes store_corrupt) = Inr not_found"
    by (rule t[where error = SyntaxError,
          THEN eighth, THEN mp]) (simp add: lc)
  have r9: "fst (server engine0 (GET_path ''/abc'') zero_bytes (store_holding JNull))
      = Inr not_found"
    by (rule t[where links = JNull and ?s1.0 = "store_holding JNull"
          and ?error1.0 = TypeError,
          THEN ninth, THEN mp])
       (simp add: lh g4)
  have g10: "get_property engine0 (JObj [''abc'' \<mapsto> JStr ?bad]) ''abc'' = Inr (Str ?bad)"
    by (simp add: get_property_object object_member_def)
  have a10: "\<not> location_accepted engine0 (Str ?bad)"
    by (simp add: location_accepted_def plain_byte_def latin_lead_def)
  have r10: "fst (server engine0 (GET_path ''/abc'') zero_bytes
        (store_holding (JObj [''abc'' \<mapsto> JStr ?bad]))) = Inr not_found"
    by (rule t[where links = "JObj [''abc'' \<mapsto> JStr ?bad]"
          and ?s1.0 = "store_holding (JObj [''abc'' \<mapsto> JStr ?bad])"
          and target = "Str ?bad",
          THEN tenth, THEN mp])
       (simp add: lh g10 a10)
  show ?thesis
    by (intro conjI) (rule lc r1 lr r3[THEN conjunct1] r3[THEN conjunct2] g4 r4 g5 r5 s6 r6
        v7 r7 r8 r9 a10 r10)+
qed

subsection \<open>Saving what was loaded\<close>

text \<open>
  Claim C9: for a well-formed record, one that is zero-length or holds a table, saving the
  table just loaded leaves the table that the record holds unchanged; doing it twice is
  the same as doing it once, and a record that held a table is not changed at all.
\<close>

theorem save_load_keeps_table:
  assumes "data_file s = Present c"
    and "c = Zero_length \<or> c = Json_text v \<and> is_table v"
  shows "fst (loadLinks (snd (save_load s))) = fst (loadLinks s)
     \<and> save_load (snd (save_load s)) = save_load s
     \<and> (c = Json_text v \<longrightarrow> snd (save_load s) = s)"
proof -
  from assms(2) show ?thesis
  proof
    assume z: "c = Zero_length"
    show ?thesis
    proof (cases "read_only s")
      case True
      with assms(1) z show ?thesis
        by (simp add: save_load_def loadLinks_Present saveLinks_read_only)
    next
      case False
      with assms(1) z show ?thesis
        by (simp add: save_load_def loadLinks_Present saveLinks_writable JSON_stringify_def)
    qed
  next
    assume t: "c = Json_text v \<and> is_table v"
    then have sv: "stringified v = v" by (simp add: stringified_table)
    show ?thesis
    proof (cases "read_only s")
      case True
      with assms(1) t show ?thesis
        by (simp add: save_load_def loadLinks_Present saveLinks_read_only)
    next
      case False
      with assms(1) t sv show ?thesis
        by (simp add: save_load_def loadLinks_Present saveLinks_writable JSON_stringify_def)
    qed
  qed
qed

theorem save_load_keeps_table_witness:
  "data_file store_zero_length = Present Zero_length
   \<and> fst (loadLinks store_zero_length) = Inr (JObj Map.empty)
   \<and> fst (loadLinks (snd (save_load store_zero_length))) = Inr (JObj Map.empty)
   \<and> snd (save_load store_zero_length) = store_empty
   \<and> is_table (JObj [''abc'' \<mapsto> JStr ''https://example.com''])
   \<and> snd (save_load (store_holding (JObj [''abc'' \<mapsto> JStr ''https://example.com''])))
       = store_holding (JObj [''abc'' \<mapsto> JStr ''https://example.com''])"
proof -
  have d: "data_file store_zero_length = Present Zero_length"
    by (simp add: store_zero_length_def)
  have l: "fst (loadLinks store_zero_length) = Inr (JObj Map.empty)"
    by (simp add: store_zero_length_def loadLinks_Present)
  have sl: "snd (save_load store_zero_length) = store_empty"
    by (simp add: save_load_def store_zero_length_def store_empty_def loadLinks_Present
        saveLinks_writable JSON_stringify_def)
  let ?t = "JObj [''abc'' \<mapsto> JStr ''https://example.com'']"
  have d': "data_file (store_holding ?t) = Present (Json_text ?t)"
    by (simp add: store_holding_def)
  have it: "is_table ?t" by (simp add: is_table_def)
  have z: "Zero_length = Zero_length \<or> Zero_length = Json_text v \<and> is_table v" for v
    by simp
  have y: "Json_text ?t = Zero_length \<or> Json_text ?t = Json_text ?t \<and> is_table ?t"
    using it by simp
  from d l sl it save_load_keeps_table[OF d z, of ?t] save_load_keeps_table[OF d' y]
  show ?thesis by simp
qed

subsection \<open>An empty requested code\<close>

text \<open>
  Claim C10: a create whose shortCode is the empty string behaves exactly as one without
  shortCode: the candidate is the hexadecimal text of the four random bytes, eight
  lower-case hexadecimal digits that read back as the number the bytes spell, different
  bytes giving different codes; and for a non-empty destination that code, when the
  table does not hold it, is the one assigned and returned.
\<close>

theorem empty_code_means_generated:
  "shorten e (Body_object url (Some [])) rnd s = shorten e (Body_object url None) rnd s
   \<and> finalShortCode (Some []) rnd = toString_hex rnd
   \<and> length (toString_hex rnd) = 8
   \<and> set (toString_hex rnd) \<subseteq> set ''0123456789abcdef''
   \<and> from_hex (toString_hex rnd) = bytes_value rnd
   \<and> inj toString_hex
   \<and> (u \<noteq> [] \<and> loadLinks s = (Inr (JObj links), s1) \<and> \<not> read_only s
        \<and> links (toString_hex rnd) = None \<longrightarrow>
      shorten e (Body_object (Some u) (Some [])) rnd s =
        (Response 201 json (Json_created (toString_hex rnd)),
         s1\<lparr>data_file := Present (JSON_stringify
               (JObj (links(toString_hex rnd \<mapsto> JStr u))))\<rparr>))"
proof (intro conjI impI)
  show f: "finalShortCode (Some []) rnd = toString_hex rnd"
    by (simp add: finalShortCode_def)
  show "shorten e (Body_object url (Some [])) rnd s = shorten e (Body_object url None) rnd s"
    by (simp add: shorten_def after_load_def finalShortCode_def
        split: prod.splits sum.splits option.splits)
  show "length (toString_hex rnd) = 8" by (rule length_toString_hex)
  show "set (toString_hex rnd) \<subseteq> set ''0123456789abcdef''" by (rule set_toString_hex)
  show "from_hex (toString_hex rnd) = bytes_value rnd" by (rule from_hex_toString_hex)
  show "inj toString_hex" by (rule injI) (rule toString_hex_inj)
  assume a: "u \<noteq> [] \<and> loadLinks s = (Inr (JObj links), s1) \<and> \<not> read_only s
        \<and> links (toString_hex rnd) = None"
  then have l: "loadLinks s = (Inr (JObj links), s1)" by simp
  have "object_member links (toString_hex rnd) = Undefined"
    using a toString_hex_not_inherited[of rnd] by (simp add: object_member_def inherited_def)
  with a f show "shorten e (Body_object (Some u) (Some [])) rnd s =
        (Response 201 json (Json_created (toString_hex rnd)),
         s1\<lparr>data_file := Present (JSON_stringify
               (JObj (links(toString_hex rnd \<mapsto> JStr u))))\<rparr>)"
    by (simp add: shorten_object[OF l])
qed

theorem empty_code_means_generated_witness:
  "''https://example.com'' \<noteq> []
   \<and> loadLinks store_empty = (Inr (JObj Map.empty), store_empty)
   \<and> \<not> read_only store_empty
   \<and> toString_hex (0xDE, 0xAD, 0xBE, 0xEF) = ''deadbeef''
   \<and> shorten engine0 (Body_object (Some ''https://example.com'') (Some []))
        (0xDE, 0xAD, 0xBE, 0xEF) store_empty =
        (Response 201 json (Json_created ''deadbeef''),
         store_holding (JObj [''deadbeef'' \<mapsto> JStr ''https://example.com'']))"
proof -
  have u: "''https://example.com'' \<noteq> []" by simp
  have l: "loadLinks store_empty = (Inr (JObj Map.empty), store_empty)"
    by (simp add: store_empty_def loadLinks_Present)
  have r: "\<not> read_only store_empty" by (simp add: store_empty_def)
  have h: "toString_hex (0xDE, 0xAD, 0xBE, 0xEF) = ''deadbeef''"
    by (simp add: hex_byte_def hex_digit_def)
  have m: "Map.empty (toString_hex (0xDE, 0xAD, 0xBE, 0xEF)) = (None :: json option)" by simp
  have st: "store_empty\<lparr>data_file := Present (JSON_stringify
      (JObj [''deadbeef'' \<mapsto> JStr ''https://example.com'']))\<rparr>
      = store_holding (JObj [''deadbeef'' \<mapsto> JStr ''https://example.com''])"
    by (simp add: store_empty_def store_holding_def JSON_stringify_def)
  have "u \<noteq> [] \<and> loadLinks s = (Inr (JObj links), s1) \<and> \<not> read_only s
        \<and> links (toString_hex rnd) = None \<longrightarrow>
      shorten e (Body_object (Some u) (Some [])) rnd s =
        (Response 201 json (Json_created (toString_hex rnd)),
         s1\<lparr>data_file := Present (JSON_stringify
               (JObj (links(toString_hex rnd \<mapsto> JStr u))))\<rparr>)"
    for u s links s1 rnd e
    using empty_code_means_generated[of e "Some u" rnd s u links s1] by (elim conjE)
  from this[of "''https://example.com''" store_empty Map.empty store_empty
      "(0xDE, 0xAD, 0xBE, 0xEF)" engine0, THEN mp] u l r m
  have "shorten engine0 (Body_object (Some ''https://example.com'') (Some []))
        (0xDE, 0xAD, 0xBE, 0xEF) store_empty =
        (Response 201 json (Json_created (toString_hex (0xDE, 0xAD, 0xBE, 0xEF))),
         store_empty\<lparr>data_file := Present (JSON_stringify
           (JObj [toString_hex (0xDE, 0xAD, 0xBE, 0xEF) \<mapsto> JStr ''https://example.com'']))\<rparr>)"
    by simp
  with u l r h st show ?thesis by simp
qed

end
